theory Spec2Isabelle
  imports Main "HOL-Library.AList" "HOL-Library.Sublist"
begin

section \<open>The host: platform, paths and the filesystem\<close>

text \<open>
  The package \<^verbatim>\<open>claude_ssh_mcp\<close> is one Python module. It reads the platform, probes the
  filesystem, downloads and unpacks a Node.js archive and spawns \<^verbatim>\<open>npx\<close>. Everything it
  reads from outside is a field of the record \<open>host\<close>; everything it changes is a field of
  the record \<open>state\<close>, passed through every function and returned updated.

  A path is the list of its components (the anchor, a drive or a root, is the first
  component when there is one); \<^verbatim>\<open>p / name\<close> appends a component, \<^verbatim>\<open>p.parent\<close> drops the
  last one, and \<^verbatim>\<open>str(p)\<close> and \<^verbatim>\<open>Path(s)\<close> are the identity. Symbolic links, permissions
  and failures of the operating system other than the ones written out are not modelled.
\<close>

type_synonym path = "string list"

definition parent :: "path \<Rightarrow> path" where
  "parent p = butlast p"

datatype fsnode = File string | Dir "(string \<times> fsnode) list"

fun lookup :: "fsnode \<Rightarrow> path \<Rightarrow> fsnode option" where
  "lookup n [] = Some n"
| "lookup (File c) (x # xs) = None"
| "lookup (Dir es) (x # xs) =
     (case map_of es x of None \<Rightarrow> None | Some n \<Rightarrow> lookup n xs)"

definition path_exists :: "fsnode \<Rightarrow> path \<Rightarrow> bool" where
  "path_exists root p = (lookup root p \<noteq> None)"

definition is_dir :: "fsnode \<Rightarrow> path \<Rightarrow> bool" where
  "is_dir root p = (case lookup root p of Some (Dir es) \<Rightarrow> True | _ \<Rightarrow> False)"

text \<open>\<open>modify_at root p f\<close> replaces the node at \<open>p\<close> by its image under \<open>f\<close>; a path that
  does not exist leaves the tree as it is.\<close>

fun modify_at :: "fsnode \<Rightarrow> path \<Rightarrow> (fsnode \<Rightarrow> fsnode) \<Rightarrow> fsnode" where
  "modify_at n [] f = f n"
| "modify_at (File c) (x # xs) f = File c"
| "modify_at (Dir es) (x # xs) f =
     (case map_of es x of
        None \<Rightarrow> Dir es
      | Some v \<Rightarrow> Dir (AList.update x (modify_at v xs f) es))"

definition add_child :: "string \<Rightarrow> fsnode \<Rightarrow> fsnode \<Rightarrow> fsnode" where
  "add_child x v n = (case n of Dir es \<Rightarrow> Dir (AList.update x v es) | File c \<Rightarrow> File c)"

definition del_child :: "string \<Rightarrow> fsnode \<Rightarrow> fsnode" where
  "del_child x n = (case n of Dir es \<Rightarrow> Dir (AList.delete x es) | File c \<Rightarrow> File c)"

text \<open>Writing an entry at a path (a file written, a directory created, the target of a
  rename) and deleting the entry at a path (\<^verbatim>\<open>shutil.rmtree\<close> of a directory,
  \<^verbatim>\<open>unlink\<close> of a file).\<close>

definition put :: "fsnode \<Rightarrow> path \<Rightarrow> fsnode \<Rightarrow> fsnode" where
  "put root p v = (if p = [] then v else modify_at root (butlast p) (add_child (last p) v))"

definition remove :: "fsnode \<Rightarrow> path \<Rightarrow> fsnode" where
  "remove root p = (if p = [] then root else modify_at root (butlast p) (del_child (last p)))"

definition rmtree :: "fsnode \<Rightarrow> path \<Rightarrow> fsnode" where
  "rmtree root p = remove root p"

definition unlink :: "fsnode \<Rightarrow> path \<Rightarrow> fsnode" where
  "unlink root p = remove root p"

definition iterdir :: "fsnode \<Rightarrow> path \<Rightarrow> string list" where
  "iterdir root p = (case lookup root p of Some (Dir es) \<Rightarrow> map fst es | _ \<Rightarrow> [])"

text \<open>\<^verbatim>\<open>Path.mkdir(parents=True, exist_ok=True)\<close>: every missing directory on the way is
  created; a file on the way is an error (\<open>None\<close>), and then nothing has been created.\<close>

fun mkdir_parents :: "fsnode \<Rightarrow> path \<Rightarrow> fsnode option" where
  "mkdir_parents (File c) p = None"
| "mkdir_parents (Dir es) [] = Some (Dir es)"
| "mkdir_parents (Dir es) (x # xs) =
     (case mkdir_parents (case map_of es x of None \<Rightarrow> Dir [] | Some v \<Rightarrow> v) xs of
        None \<Rightarrow> None
      | Some v' \<Rightarrow> Some (Dir (AList.update x v' es)))"

text \<open>\<^verbatim>\<open>shutil.move(src, dst)\<close>: a rename to \<open>dst\<close>, or into \<open>dst\<close> when that is an
  existing directory (an error when the name is taken there). A missing source is an
  error (\<open>None\<close>).\<close>

definition move :: "fsnode \<Rightarrow> path \<Rightarrow> path \<Rightarrow> fsnode option" where
  "move root src dst =
     (case lookup root src of
        None \<Rightarrow> None
      | Some v \<Rightarrow>
          if is_dir root dst then
            (if path_exists root (dst @ [last src]) then None
             else Some (put (remove root src) (dst @ [last src]) v))
          else Some (put (remove root src) dst v))"

subsection \<open>Strings\<close>

definition lower_char :: "char \<Rightarrow> char" where
  "lower_char c =
     (case map_of (zip ''ABCDEFGHIJKLMNOPQRSTUVWXYZ'' ''abcdefghijklmnopqrstuvwxyz'') c of
        Some d \<Rightarrow> d
      | None \<Rightarrow> c)"

definition lower :: "string \<Rightarrow> string" where
  "lower s = map lower_char s"

definition startswith :: "string \<Rightarrow> string \<Rightarrow> bool" where
  "startswith s pre = (take (length pre) s = pre)"

definition endswith :: "string \<Rightarrow> string \<Rightarrow> bool" where
  "endswith s suf = (length suf \<le> length s \<and> drop (length s - length suf) s = suf)"

subsection \<open>What the module reads and what it changes\<close>

type_synonym cmd = "path \<times> string list"

record host =
  platform_system :: string
  platform_machine :: string
  path_home :: path
  environ_get :: "string \<Rightarrow> path option"
  shutil_which :: "fsnode \<Rightarrow> string \<Rightarrow> path option"
  mkdtemp :: path
  urlretrieve :: "string \<Rightarrow> string option"
  zip_extractall :: "string \<Rightarrow> (string \<times> fsnode) list option"
  tar_xz_extractall :: "string \<Rightarrow> (string \<times> fsnode) list option"
  tar_gz_extractall :: "string \<Rightarrow> (string \<times> fsnode) list option"
  subprocess_call :: "cmd \<Rightarrow> fsnode \<Rightarrow> int option \<times> fsnode"

datatype message =
    Downloading string
  | Extracting
  | Installed path
  | NotFoundInstalling

record state =
  fs :: fsnode
  requests :: "string list"
  stdout :: "message list"
  spawned :: "cmd list"

datatype error =
    MkdirError
  | TempDirError
  | DownloadError
  | ExtractError
  | ExtractedDirNotFound
  | MoveError path
  | InstallationFailed path
  | SpawnError cmd

section \<open>The module\<close>

definition NODE_VERSION :: string where
  "NODE_VERSION = ''20.11.0''"

definition is_windows :: "host \<Rightarrow> bool" where
  "is_windows h = (platform_system h = ''Windows'')"

definition get_node_paths :: "host \<Rightarrow> path list" where
  "get_node_paths h =
     (let home = path_home h in
      if is_windows h then
        [home @ [''.claude-ssh-mcp'', ''node''],
         (case environ_get h ''PROGRAMFILES'' of
            Some p \<Rightarrow> p | None \<Rightarrow> [''C:'', ''Program Files'']) @ [''nodejs''],
         (case environ_get h ''LOCALAPPDATA'' of
            Some p \<Rightarrow> p | None \<Rightarrow> []) @ [''Programs'', ''node'']]
      else
        [home @ [''.claude-ssh-mcp'', ''node''],
         [''/'', ''usr'', ''local'', ''bin''],
         [''/'', ''usr'', ''bin''],
         home @ [''.local'', ''bin''],
         home @ [''.nvm'', ''versions'', ''node'', ''v'' @ NODE_VERSION, ''bin'']])"

fun find_node_in :: "host \<Rightarrow> fsnode \<Rightarrow> path list \<Rightarrow> path option" where
  "find_node_in h root [] = None"
| "find_node_in h root (base_path # rest) =
     (let node_exe = (if is_windows h then base_path @ [''node.exe'']
                      else base_path @ [''node''])
      in if path_exists root node_exe then Some node_exe
         else find_node_in h root rest)"

definition find_node :: "host \<Rightarrow> fsnode \<Rightarrow> path option" where
  "find_node h root =
     (let node_cmd = (if is_windows h then ''node.exe'' else ''node'') in
      case shutil_which h root node_cmd of
        Some node_path \<Rightarrow> Some node_path
      | None \<Rightarrow> find_node_in h root (get_node_paths h))"

definition find_npx :: "host \<Rightarrow> fsnode \<Rightarrow> path option" where
  "find_npx h root =
     (let npx_cmd = (if is_windows h then ''npx.cmd'' else ''npx'') in
      case shutil_which h root npx_cmd of
        Some npx_path \<Rightarrow> Some npx_path
      | None \<Rightarrow>
          (case find_node h root of
             Some node_path \<Rightarrow>
               (let node_dir = parent node_path;
                    npx_exe = (if is_windows h then node_dir @ [''npx.cmd'']
                               else node_dir @ [''npx''])
                in if path_exists root npx_exe then Some npx_exe else None)
           | None \<Rightarrow> None))"

definition node_arch :: "string \<Rightarrow> string" where
  "node_arch machine =
     (if machine = ''x86_64'' \<or> machine = ''amd64'' then ''x64''
      else if machine = ''arm64'' \<or> machine = ''aarch64'' then ''arm64''
      else if machine = ''i386'' \<or> machine = ''i686'' \<or> machine = ''x86'' then ''x86''
      else ''x64'')"

definition get_node_download_url :: "host \<Rightarrow> string" where
  "get_node_download_url h =
     (let system = lower (platform_system h);
          machine = lower (platform_machine h);
          arch = node_arch machine
      in if system = ''windows'' then
           ''https://nodejs.org/dist/v'' @ NODE_VERSION @ ''/node-v'' @ NODE_VERSION
             @ ''-win-'' @ arch @ ''.zip''
         else if system = ''darwin'' then
           ''https://nodejs.org/dist/v'' @ NODE_VERSION @ ''/node-v'' @ NODE_VERSION
             @ ''-darwin-'' @ arch @ ''.tar.gz''
         else
           ''https://nodejs.org/dist/v'' @ NODE_VERSION @ ''/node-v'' @ NODE_VERSION
             @ ''-linux-'' @ arch @ ''.tar.xz'')"

definition install_dir :: "host \<Rightarrow> path" where
  "install_dir h = path_home h @ [''.claude-ssh-mcp'', ''node'']"

text \<open>Lines 124 to 131: the archive's name in the temporary directory, and the download.
  The request is logged whether it succeeds or not.\<close>

definition archive_path :: "host \<Rightarrow> string \<Rightarrow> path" where
  "archive_path h url =
     (if endswith url ''.zip'' then mkdtemp h @ [''node.zip'']
      else if endswith url ''.tar.xz'' then mkdtemp h @ [''node.tar.xz'']
      else mkdtemp h @ [''node.tar.gz''])"

definition download :: "host \<Rightarrow> string \<Rightarrow> state \<Rightarrow> error option \<times> state" where
  "download h url s =
     (let s1 = s\<lparr>requests := requests s @ [url]\<rparr> in
      case urlretrieve h url of
        None \<Rightarrow> (Some DownloadError, s1)
      | Some content \<Rightarrow>
          (None, s1\<lparr>fs := put (fs s1) (archive_path h url) (File content),
                      stdout := stdout s1 @ [Extracting]\<rparr>))"

text \<open>Lines 134 to 145: the archive is read back and unpacked into the temporary
  directory, by one of three extractors.\<close>

fun write_members :: "fsnode \<Rightarrow> path \<Rightarrow> (string \<times> fsnode) list \<Rightarrow> fsnode" where
  "write_members root d [] = root"
| "write_members root d ((name, v) # rest) = write_members (put root (d @ [name]) v) d rest"

definition extract_archive :: "host \<Rightarrow> string \<Rightarrow> state \<Rightarrow> error option \<times> state" where
  "extract_archive h url s =
     (case lookup (fs s) (archive_path h url) of
        Some (File content) \<Rightarrow>
          (case (if endswith url ''.zip'' then zip_extractall h content
                 else if endswith url ''.tar.xz'' then tar_xz_extractall h content
                 else tar_gz_extractall h content) of
             None \<Rightarrow> (Some ExtractError, s)
           | Some members \<Rightarrow>
               (None, s\<lparr>fs := write_members (fs s) (mkdtemp h) members\<rparr>))
      | _ \<Rightarrow> (Some ExtractError, s))"

text \<open>Lines 147 to 155: the first entry of the temporary directory that is a directory
  and whose name starts with \<^verbatim>\<open>node-\<close>.\<close>

definition find_extracted :: "fsnode \<Rightarrow> path \<Rightarrow> path option" where
  "find_extracted root tmpdir =
     (case List.find (\<lambda>name. is_dir root (tmpdir @ [name]) \<and> startswith name ''node-'')
             (iterdir root tmpdir) of
        None \<Rightarrow> None
      | Some name \<Rightarrow> Some (tmpdir @ [name]))"

text \<open>Lines 160 to 167 (and again 170 to 177): every entry of the extracted directory is
  moved into the install directory, after whatever has its name there is deleted. The
  tree is returned also when a move fails, as it is then.\<close>

fun move_items :: "path \<Rightarrow> path \<Rightarrow> string list \<Rightarrow> fsnode \<Rightarrow> error option \<times> fsnode" where
  "move_items extracted inst [] root = (None, root)"
| "move_items extracted inst (name # rest) root =
     (let dest = inst @ [name];
          root1 = (if path_exists root dest then
                     (if is_dir root dest then rmtree root dest else unlink root dest)
                   else root)
      in case move root1 (extracted @ [name]) dest of
           None \<Rightarrow> (Some (MoveError (extracted @ [name])), root1)
         | Some root2 \<Rightarrow> move_items extracted inst rest root2)"

definition move_to_install :: "host \<Rightarrow> path \<Rightarrow> fsnode \<Rightarrow> error option \<times> fsnode" where
  "move_to_install h extracted root =
     (if is_windows h then
        move_items extracted (install_dir h) (iterdir root extracted) root
      else
        move_items extracted (install_dir h) (iterdir root extracted) root)"

text \<open>Lines 121 to 177: the body of the \<^verbatim>\<open>with\<close> block.\<close>

definition with_body :: "host \<Rightarrow> string \<Rightarrow> state \<Rightarrow> error option \<times> state" where
  "with_body h url s =
     (case download h url s of
        (Some e, s1) \<Rightarrow> (Some e, s1)
      | (None, s1) \<Rightarrow>
          (case extract_archive h url s1 of
             (Some e, s2) \<Rightarrow> (Some e, s2)
           | (None, s2) \<Rightarrow>
               (case find_extracted (fs s2) (mkdtemp h) of
                  None \<Rightarrow> (Some ExtractedDirNotFound, s2)
                | Some extracted \<Rightarrow>
                    (case move_to_install h extracted (fs s2) of
                       (r, root) \<Rightarrow> (r, s2\<lparr>fs := root\<rparr>)))))"

text \<open>Lines 179 to 189: the check that the executable is where it should be.\<close>

definition node_exe_path :: "host \<Rightarrow> path" where
  "node_exe_path h =
     (if is_windows h then install_dir h @ [''node.exe'']
      else install_dir h @ [''bin'', ''node''])"

definition verify_installation :: "host \<Rightarrow> state \<Rightarrow> (error + path) \<times> state" where
  "verify_installation h s =
     (let node_exe = node_exe_path h in
      if \<not> path_exists (fs s) node_exe then (Inl (InstallationFailed node_exe), s)
      else (Inr node_exe, s\<lparr>stdout := stdout s @ [Installed (install_dir h)]\<rparr>))"

text \<open>\<^verbatim>\<open>tempfile.TemporaryDirectory()\<close> creates the directory \<open>mkdtemp h\<close>, which takes a
  parent that is a directory and a name that is free there; leaving the \<^verbatim>\<open>with\<close> block,
  by its end or by an exception, deletes it.\<close>

definition make_tmpdir :: "host \<Rightarrow> fsnode \<Rightarrow> fsnode option" where
  "make_tmpdir h root =
     (if mkdtemp h \<noteq> [] \<and> is_dir root (parent (mkdtemp h)) \<and> \<not> path_exists root (mkdtemp h)
      then Some (put root (mkdtemp h) (Dir []))
      else None)"

definition install_nodejs :: "host \<Rightarrow> state \<Rightarrow> (error + path) \<times> state" where
  "install_nodejs h s =
     (case mkdir_parents (fs s) (install_dir h) of
        None \<Rightarrow> (Inl MkdirError, s)
      | Some root1 \<Rightarrow>
          (let url = get_node_download_url h;
               s1 = s\<lparr>fs := root1, stdout := stdout s @ [Downloading url]\<rparr>
           in case make_tmpdir h (fs s1) of
                None \<Rightarrow> (Inl TempDirError, s1)
              | Some root2 \<Rightarrow>
                  (case with_body h url (s1\<lparr>fs := root2\<rparr>) of
                     (r, s2) \<Rightarrow>
                       (let s3 = s2\<lparr>fs := rmtree (fs s2) (mkdtemp h)\<rparr> in
                        case r of
                          Some e \<Rightarrow> (Inl e, s3)
                        | None \<Rightarrow> verify_installation h s3))))"

definition ensure_nodejs :: "host \<Rightarrow> state \<Rightarrow> (error + path) \<times> state" where
  "ensure_nodejs h s =
     (case find_node h (fs s) of
        Some node_path \<Rightarrow> (Inr node_path, s)
      | None \<Rightarrow> install_nodejs h (s\<lparr>stdout := stdout s @ [NotFoundInstalling]\<rparr>))"

text \<open>\<^verbatim>\<open>subprocess.call(cmd)\<close>: the command is recorded, the child may change the
  filesystem, and a child that cannot be started is an error.\<close>

definition call :: "host \<Rightarrow> cmd \<Rightarrow> state \<Rightarrow> (error + int) \<times> state" where
  "call h c s =
     (case subprocess_call h c (fs s) of
        (r, root) \<Rightarrow>
          (let s1 = s\<lparr>fs := root, spawned := spawned s @ [c]\<rparr> in
           case r of None \<Rightarrow> (Inl (SpawnError c), s1) | Some code \<Rightarrow> (Inr code, s1)))"

definition run_npx :: "host \<Rightarrow> string list \<Rightarrow> state \<Rightarrow> (error + int) \<times> state" where
  "run_npx h args s =
     (case find_npx h (fs s) of
        Some npx_path \<Rightarrow> call h (npx_path, args) s
      | None \<Rightarrow>
          (case ensure_nodejs h s of
             (Inl e, s1) \<Rightarrow> (Inl e, s1)
           | (Inr node_path, s1) \<Rightarrow>
               (let node_dir = parent node_path;
                    npx_path = (if is_windows h then node_dir @ [''npx.cmd'']
                                else node_dir @ [''npx''])
                in call h (npx_path, args) s1)))"




section \<open>The specification's vocabulary\<close>

text \<open>The Platform Identifier of the specification: the operating system's token, read
  from the lower-cased system name as \<open>get_node_download_url\<close> reads it, the name the
  specification gives each token, the name the distribution's archives carry, and the
  archive's extension.\<close>

datatype os_token = Windows | Darwin | Linux

definition os_token_of :: "host \<Rightarrow> os_token" where
  "os_token_of h =
     (if lower (platform_system h) = ''windows'' then Windows
      else if lower (platform_system h) = ''darwin'' then Darwin
      else Linux)"

fun spec_os_name :: "os_token \<Rightarrow> string" where
  "spec_os_name Windows = ''windows''"
| "spec_os_name Darwin = ''darwin''"
| "spec_os_name Linux = ''linux''"

fun dist_os_name :: "os_token \<Rightarrow> string" where
  "dist_os_name Windows = ''win''"
| "dist_os_name Darwin = ''darwin''"
| "dist_os_name Linux = ''linux''"

fun archive_ext :: "os_token \<Rightarrow> string" where
  "archive_ext Windows = ''zip''"
| "archive_ext Darwin = ''tar.gz''"
| "archive_ext Linux = ''tar.xz''"

definition url_template ::
  "string \<Rightarrow> string \<Rightarrow> string \<Rightarrow> string \<Rightarrow> string \<Rightarrow> string \<Rightarrow> string" where
  "url_template vendor_host version dist_name os arch ext =
     ''https://'' @ vendor_host @ ''/dist/v'' @ version @ ''/'' @ dist_name @ ''-v'' @ version
       @ ''-'' @ os @ ''-'' @ arch @ ''.'' @ ext"

definition spec_download_url :: "host \<Rightarrow> string" where
  "spec_download_url h =
     url_template ''nodejs.org'' NODE_VERSION ''node'' (spec_os_name (os_token_of h))
       (node_arch (lower (platform_machine h))) (archive_ext (os_token_of h))"

text \<open>The launcher's file name on the host, and the launcher's locator as the
  specification words it: the search path, then the candidate directories, then the
  sibling of the runtime found.\<close>

definition npx_name :: "host \<Rightarrow> string" where
  "npx_name h = (if is_windows h then ''npx.cmd'' else ''npx'')"

fun first_existing :: "fsnode \<Rightarrow> string \<Rightarrow> path list \<Rightarrow> path option" where
  "first_existing root name [] = None"
| "first_existing root name (base_path # rest) =
     (if path_exists root (base_path @ [name]) then Some (base_path @ [name])
      else first_existing root name rest)"

definition spec_find_npx :: "host \<Rightarrow> fsnode \<Rightarrow> path option" where
  "spec_find_npx h root =
     (case shutil_which h root (npx_name h) of
        Some p \<Rightarrow> Some p
      | None \<Rightarrow>
          (case first_existing root (npx_name h) (get_node_paths h) of
             Some p \<Rightarrow> Some p
           | None \<Rightarrow>
               (case find_node h root of
                  None \<Rightarrow> None
                | Some node_path \<Rightarrow>
                    if path_exists root (parent node_path @ [npx_name h])
                    then Some (parent node_path @ [npx_name h])
                    else None)))"

section \<open>Hosts and states to run the module on\<close>

definition node_dist :: "(string \<times> fsnode) list" where
  "node_dist =
     [(''node-v20.11.0-linux-x64'',
       Dir [(''bin'', Dir [(''node'', File ''node 20.11.0''), (''npx'', File ''npx'')]),
            (''lib'', Dir [(''node_modules'', Dir [])]),
            (''LICENSE'', File ''license'')])]"

definition linux_host :: host where
  "linux_host =
     \<lparr>platform_system = ''Linux'', platform_machine = ''x86_64'',
      path_home = [''/'', ''home'', ''u''],
      environ_get = (\<lambda>name. None),
      shutil_which = (\<lambda>root name. None),
      mkdtemp = [''/'', ''tmp'', ''tmpk3v9''],
      urlretrieve = (\<lambda>url. Some ''xz''),
      zip_extractall = (\<lambda>content. None),
      tar_xz_extractall = (\<lambda>content. Some node_dist),
      tar_gz_extractall = (\<lambda>content. None),
      subprocess_call = (\<lambda>c root. (Some 3, root))\<rparr>"

definition linux_root :: fsnode where
  "linux_root =
     Dir [(''/'', Dir [(''tmp'', Dir []),
                       (''home'', Dir [(''u'', Dir [])]),
                       (''usr'', Dir [(''local'', Dir [(''bin'', Dir [(''npx'', File ''npx'')])])]),
                       (''opt'', Dir [(''bin'', Dir [(''node'', File ''node'')])])])]"

definition linux_state :: state where
  "linux_state = \<lparr>fs = linux_root, requests = [], stdout = [], spawned = []\<rparr>"

text \<open>A host whose search path holds \<^verbatim>\<open>node\<close> (in a directory without \<^verbatim>\<open>npx\<close>) and not
  \<^verbatim>\<open>npx\<close>.\<close>

definition path_host :: host where
  "path_host =
     linux_host\<lparr>shutil_which :=
       (\<lambda>root name. if name = ''node'' then Some [''/'', ''opt'', ''bin'', ''node''] else None)\<rparr>"

definition offline_host :: host where
  "offline_host = linux_host\<lparr>urlretrieve := (\<lambda>url. None)\<rparr>"

definition windows_host :: host where
  "windows_host = linux_host\<lparr>platform_system := ''Windows'', platform_machine := ''AMD64''\<rparr>"

definition arm_host :: host where
  "arm_host = linux_host\<lparr>platform_system := ''Windows'', platform_machine := ''ARM64''\<rparr>"

text \<open>A state with an older installation in the install directory.\<close>

definition stale_state :: state where
  "stale_state =
     linux_state\<lparr>fs :=
       Dir [(''/'', Dir [(''tmp'', Dir []),
                         (''home'', Dir [(''u'', Dir [(''.claude-ssh-mcp'', Dir [(''node'',
                            Dir [(''bin'', Dir [(''node'', File ''node 18''),
                                               (''corepack'', File ''old'')]),
                                 (''CHANGELOG.md'', File ''old'')])])])])])]\<rparr>"

section \<open>Auxiliary notions for the statements\<close>

text \<open>The state in which the \<^verbatim>\<open>with\<close> block of \<open>install_nodejs\<close> is entered: the install
  directory made, the download announced, the temporary directory created. \<open>None\<close> when
  one of the two directories could not be made.\<close>

definition enter_with :: "host \<Rightarrow> state \<Rightarrow> state option" where
  "enter_with h s =
     (case mkdir_parents (fs s) (install_dir h) of
        None \<Rightarrow> None
      | Some root1 \<Rightarrow>
          (case make_tmpdir h root1 of
             None \<Rightarrow> None
           | Some root2 \<Rightarrow>
               Some (s\<lparr>stdout := stdout s @ [Downloading (get_node_download_url h)],
                        fs := root2\<rparr>)))"

text \<open>What the loop of \<open>move_items\<close> does to the entries of the install directory, given
  the extracted directory \<open>en\<close> and the names it is asked to move.\<close>

fun install_entries ::
  "fsnode \<Rightarrow> string list \<Rightarrow> (string \<times> fsnode) list \<Rightarrow> (string \<times> fsnode) list" where
  "install_entries en [] ic = ic"
| "install_entries en (name # rest) ic =
     (case lookup en [name] of
        None \<Rightarrow> AList.delete name ic
      | Some v \<Rightarrow> install_entries (remove en [name]) rest (AList.delete name ic @ [(name, v)]))"



text \<open>The error of the loop of \<open>move_items\<close>, read off the extracted directory alone.\<close>

fun move_error :: "path \<Rightarrow> fsnode \<Rightarrow> string list \<Rightarrow> error option" where
  "move_error extracted en [] = None"
| "move_error extracted en (name # rest) =
     (case lookup en [name] of
        None \<Rightarrow> Some (MoveError (extracted @ [name]))
      | Some v \<Rightarrow> move_error extracted (remove en [name]) rest)"

text \<open>The temporary directory as the download and the extraction leave it, seen from
  inside (\<open>None\<close> when one of the two fails), and what an installation then does to the
  entries of the install directory.\<close>

definition archive_name :: "string \<Rightarrow> string" where
  "archive_name url =
     (if endswith url ''.zip'' then ''node.zip''
      else if endswith url ''.tar.xz'' then ''node.tar.xz''
      else ''node.tar.gz'')"

definition extractor :: "host \<Rightarrow> string \<Rightarrow> string \<Rightarrow> (string \<times> fsnode) list option" where
  "extractor h url =
     (if endswith url ''.zip'' then zip_extractall h
      else if endswith url ''.tar.xz'' then tar_xz_extractall h
      else tar_gz_extractall h)"

definition unpacked_tmp :: "host \<Rightarrow> fsnode option" where
  "unpacked_tmp h =
     (let url = get_node_download_url h in
      case urlretrieve h url of
        None \<Rightarrow> None
      | Some content \<Rightarrow>
          (case extractor h url content of
             None \<Rightarrow> None
           | Some members \<Rightarrow>
               Some (write_members (Dir [(archive_name url, File content)]) [] members)))"

definition installed :: "host \<Rightarrow> (string \<times> fsnode) list \<Rightarrow> (string \<times> fsnode) list" where
  "installed h ic =
     (case unpacked_tmp h of
        None \<Rightarrow> ic
      | Some t \<Rightarrow>
          (case find_extracted t [] of
             None \<Rightarrow> ic
           | Some e \<Rightarrow>
               (case lookup t e of
                  None \<Rightarrow> ic
                | Some en \<Rightarrow> install_entries en (iterdir t e) ic)))"

section \<open>Lemmas about the filesystem\<close>

lemma lookup_append: "lookup root (p @ q) = Option.bind (lookup root p) (\<lambda>n. lookup n q)"
  by (induction root p rule: lookup.induct) (auto split: option.splits)

lemma lookup_modify_above:
  "lookup (modify_at root (q @ r) f) q = map_option (\<lambda>n. modify_at n r f) (lookup root q)"
  by (induction root q rule: lookup.induct) (auto simp: update_conv' split: option.splits)

lemma lookup_modify_below:
  "lookup (modify_at root p f) (p @ r) = Option.bind (lookup root p) (\<lambda>n. lookup (f n) r)"
  by (induction root p rule: lookup.induct) (auto simp: update_conv' split: option.splits)

lemma lookup_modify_disjoint:
  "\<not> prefix p q \<Longrightarrow> \<not> prefix q p \<Longrightarrow> lookup (modify_at root p f) q = lookup root q"
proof (induction root p arbitrary: q rule: lookup.induct)
  case (1 n)
  then show ?case by simp
next
  case (2 c x xs)
  then show ?case by simp
next
  case (3 es x xs)
  then obtain y ys where q: "q = y # ys" by (cases q) auto
  show ?case
  proof (cases "map_of es x")
    case None
    then show ?thesis by simp
  next
    case (Some v)
    show ?thesis
    proof (cases "y = x")
      case True
      with 3 q Some show ?thesis by (simp add: update_conv')
    next
      case False
      with q Some show ?thesis by (simp add: update_conv')
    qed
  qed
qed

lemma lookup_add_child_other:
  "y \<noteq> x \<Longrightarrow> lookup (add_child x v n) (y # r) = lookup n (y # r)"
  by (cases n) (simp_all add: add_child_def update_conv')

lemma lookup_del_child_other:
  "y \<noteq> x \<Longrightarrow> lookup (del_child x n) (y # r) = lookup n (y # r)"
  by (cases n) (simp_all add: del_child_def)

lemma lookup_del_child_same: "lookup (del_child x n) (x # r) = None"
  by (cases n) (simp_all add: del_child_def delete_conv')

lemma lookup_add_child_same: "lookup (add_child x v (Dir es)) [x] = Some v"
  by (simp add: add_child_def update_conv')

text \<open>A change to the child \<open>x\<close> of the directory at \<open>b\<close> is not seen at a path that is
  neither above nor below \<open>b @ [x]\<close>.\<close>

lemma lookup_modify_child_disjoint:
  assumes other: "\<And>y r n. y \<noteq> x \<Longrightarrow> lookup (f n) (y # r) = lookup n (y # r)"
    and "\<not> prefix (b @ [x]) q" "\<not> prefix q (b @ [x])"
  shows "lookup (modify_at root b f) q = lookup root q"
proof (cases "prefix b q")
  case True
  then obtain r where q: "q = b @ r" by (auto simp: prefix_def)
  with assms obtain y r' where r: "r = y # r'" "y \<noteq> x"
    by (cases r) (auto simp: prefix_def)
  show ?thesis unfolding q r lookup_modify_below
    by (cases "lookup root b") (simp_all add: other[OF r(2)] lookup_append)
next
  case False
  moreover have "\<not> prefix q b" using assms(3) by (auto simp: prefix_def)
  ultimately show ?thesis by (simp add: lookup_modify_disjoint)
qed

lemma lookup_put_disjoint:
  "\<not> prefix p q \<Longrightarrow> \<not> prefix q p \<Longrightarrow> lookup (put root p v) q = lookup root q"
  unfolding put_def
  by (cases p rule: rev_cases)
     (auto intro!: lookup_modify_child_disjoint lookup_add_child_other)

lemma lookup_remove_disjoint:
  "\<not> prefix p q \<Longrightarrow> \<not> prefix q p \<Longrightarrow> lookup (remove root p) q = lookup root q"
  unfolding remove_def
  by (cases p rule: rev_cases)
     (auto intro!: lookup_modify_child_disjoint lookup_del_child_other)

lemma lookup_put_above:
  "r \<noteq> [] \<Longrightarrow> lookup (put root (q @ r) v) q = map_option (\<lambda>n. put n r v) (lookup root q)"
  by (simp add: put_def butlast_append lookup_modify_above)

lemma lookup_remove_above:
  "r \<noteq> [] \<Longrightarrow> lookup (remove root (q @ r)) q = map_option (\<lambda>n. remove n r) (lookup root q)"
  by (simp add: remove_def butlast_append lookup_modify_above)

lemma lookup_remove_same: "p \<noteq> [] \<Longrightarrow> lookup (remove root p) p = None"
proof -
  assume "p \<noteq> []"
  then obtain b x where p: "p = b @ [x]" by (cases p rule: rev_cases) auto
  show ?thesis unfolding p remove_def
    by (simp add: lookup_modify_below lookup_del_child_same split: Option.bind_splits)
qed

lemma lookup_put_same:
  "p \<noteq> [] \<Longrightarrow> is_dir root (butlast p) \<Longrightarrow> lookup (put root p v) p = Some v"
proof -
  assume "p \<noteq> []" and d: "is_dir root (butlast p)"
  then obtain b x where p: "p = b @ [x]" by (cases p rule: rev_cases) auto
  from d obtain es where "lookup root b = Some (Dir es)"
    by (auto simp: is_dir_def p split: option.splits fsnode.splits)
  then show ?thesis unfolding p put_def
    by (simp add: lookup_modify_below lookup_add_child_same)
qed

lemma mkdir_parents_is_dir:
  "mkdir_parents root p = Some root1 \<Longrightarrow> \<exists>es. lookup root1 p = Some (Dir es)"
  by (induction root p arbitrary: root1 rule: mkdir_parents.induct)
     (auto simp: update_conv' split: option.splits)

lemma mkdir_parents_id:
  "lookup root p = Some (Dir es) \<Longrightarrow> mkdir_parents root p = Some root"
proof (induction root p rule: mkdir_parents.induct)
  case (1 c p)
  then show ?case by (cases p) auto
next
  case (2 es')
  then show ?case by simp
next
  case (3 es' x xs)
  then show ?case by (auto simp: update_triv split: option.splits)
qed

lemma lookup_empty_dir: "ys \<noteq> [] \<Longrightarrow> lookup (Dir []) ys = None"
  by (cases ys) auto

lemma mkdir_parents_lookup:
  "mkdir_parents root p = Some root1 \<Longrightarrow> \<not> prefix q p \<Longrightarrow> lookup root1 q = lookup root q"
proof (induction root p arbitrary: root1 q rule: mkdir_parents.induct)
  case (1 c p)
  then show ?case by simp
next
  case (2 es)
  then show ?case by simp
next
  case (3 es x xs)
  from "3.prems" obtain y ys where q: "q = y # ys" by (cases q) auto
  from "3.prems" obtain v' where
    v': "mkdir_parents (case map_of es x of None \<Rightarrow> Dir [] | Some v \<Rightarrow> v) xs = Some v'"
    and r1: "root1 = Dir (AList.update x v' es)"
    by (auto split: option.splits)
  show ?case
  proof (cases "y = x")
    case False
    then show ?thesis by (simp add: q r1 update_conv')
  next
    case True
    with "3.prems" q have np: "\<not> prefix ys xs" by simp
    then have "ys \<noteq> []" by auto
    from "3.IH"[OF v' np] this show ?thesis
      by (auto simp: q r1 True update_conv' lookup_empty_dir split: option.splits)
  qed
qed

lemma update_fresh: "k \<notin> fst ` set al \<Longrightarrow> AList.update k v al = al @ [(k, v)]"
  by (induction al) auto

lemma put_dir_child: "put (Dir es) [x] v = Dir (AList.update x v es)"
  by (simp add: put_def add_child_def)

lemma remove_dir_child: "remove (Dir es) [x] = Dir (AList.delete x es)"
  by (simp add: remove_def del_child_def)

lemma disjoint_extend:
  "\<not> prefix p q \<Longrightarrow> \<not> prefix q p \<Longrightarrow> \<not> prefix (p @ r) q \<and> \<not> prefix q (p @ r)"
  by (metis prefix_append prefix_order.dual_order.trans prefix_same_cases append_prefixD prefixI)

lemma move_items_sim:
  assumes "\<not> prefix E I" "\<not> prefix I E"
  shows "lookup root E = Some en \<Longrightarrow> lookup root I = Some (Dir ic) \<Longrightarrow>
    lookup (snd (move_items E I ns root)) I = Some (Dir (install_entries en ns ic))
    \<and> fst (move_items E I ns root) = move_error E en ns"
proof (induction ns arbitrary: root en ic)
  case Nil
  then show ?case by simp
next
  case (Cons n ns)
  let ?dest = "I @ [n]"
  let ?src = "E @ [n]"
  define root1 where "root1 = (if path_exists root ?dest then
                     (if is_dir root ?dest then rmtree root ?dest else unlink root ?dest)
                   else root)"
  have dE: "\<not> prefix ?dest E" "\<not> prefix E ?dest"
    using disjoint_extend[OF assms(2) assms(1), of "[n]"] by auto
  have sI: "\<not> prefix ?src I" "\<not> prefix I ?src"
    using disjoint_extend[OF assms(1) assms(2), of "[n]"] by auto
  have sd: "\<not> prefix ?src ?dest" "\<not> prefix ?dest ?src"
    using disjoint_extend[OF dE(2) dE(1), of "[n]"] by auto
  have ex: "path_exists root ?dest \<longleftrightarrow> map_of ic n \<noteq> None"
    using Cons.prems(2) by (simp add: path_exists_def lookup_append split: option.splits)
  have I1: "lookup root1 I = Some (Dir (AList.delete n ic))"
  proof (cases "map_of ic n")
    case None
    then have "n \<notin> fst ` set ic" by (simp add: map_of_eq_None_iff)
    then show ?thesis using None ex Cons.prems(2) by (simp add: root1_def)
  next
    case (Some a)
    then show ?thesis using ex Cons.prems(2)
      by (simp add: root1_def rmtree_def unlink_def lookup_remove_above[of "[n]", simplified]
          remove_dir_child)
  qed
  have E1: "lookup root1 E = Some en"
    using Cons.prems(1) dE by (auto simp: root1_def rmtree_def unlink_def lookup_remove_disjoint)
  have d1: "lookup root1 ?dest = None"
    using I1 by (simp add: lookup_append delete_conv')
  then have nd: "\<not> is_dir root1 ?dest" by (simp add: is_dir_def)
  have s1: "lookup root1 ?src = lookup en [n]"
    using E1 by (simp add: lookup_append)
  show ?case
  proof (cases "lookup en [n]")
    case None
    then show ?thesis using s1 I1
      by (simp add: move_def Let_def root1_def[symmetric])
  next
    case (Some v)
    let ?root2 = "put (remove root1 ?src) ?dest v"
    have mv: "move root1 ?src ?dest = Some ?root2"
      using s1 Some nd by (simp add: move_def)
    have "lookup (remove root1 ?src) I = Some (Dir (AList.delete n ic))"
      using I1 sI by (simp add: lookup_remove_disjoint)
    then have I2: "lookup ?root2 I = Some (Dir (AList.delete n ic @ [(n, v)]))"
      by (simp add: lookup_put_above[of "[n]", simplified] put_dir_child update_fresh delete_notin_dom)
    have "lookup (remove root1 ?src) E = Some (remove en [n])"
      using E1 by (simp add: lookup_remove_above[of "[n]", simplified])
    then have E2: "lookup ?root2 E = Some (remove en [n])"
      using dE by (simp add: lookup_put_disjoint)
    from Cons.IH[OF E2 I2] show ?thesis
      using mv Some by (simp add: Let_def root1_def[symmetric])
  qed
qed

lemma install_entries_shape:
  "\<exists>D X. fst ` set X \<subseteq> D \<and> (\<forall>ic. install_entries en ns ic = filter (\<lambda>kv. fst kv \<notin> D) ic @ X)"
proof (induction ns arbitrary: en)
  case Nil
  show ?case by (rule exI[of _ "{}"], rule exI[of _ "[]"]) simp
next
  case (Cons n ns)
  show ?case
  proof (cases "lookup en [n]")
    case None
    show ?thesis
      by (rule exI[of _ "{n}"], rule exI[of _ "[]"]) (auto simp: None AList.delete_eq intro: filter_cong)
  next
    case (Some v)
    from Cons[of "remove en [n]"] obtain D X where
      DX: "fst ` set X \<subseteq> D" "\<And>ic. install_entries (remove en [n]) ns ic = filter (\<lambda>kv. fst kv \<notin> D) ic @ X"
      by blast
    show ?thesis
      apply (rule exI[of _ "insert n D"], rule exI[of _ "filter (\<lambda>kv. fst kv \<notin> D) [(n, v)] @ X"])
      using DX(1) by (auto simp: Some DX(2) AList.delete_eq intro: filter_cong)
  qed
qed

lemma install_entries_idem:
  "install_entries en ns (install_entries en ns ic) = install_entries en ns ic"
proof -
  from install_entries_shape[of en ns] obtain D X where
    DX: "fst ` set X \<subseteq> D" "\<And>ic. install_entries en ns ic = filter (\<lambda>kv. fst kv \<notin> D) ic @ X"
    by blast
  have "filter (\<lambda>kv. fst kv \<notin> D) X = []" using DX(1) by (auto simp: filter_empty_conv)
  then show ?thesis by (simp add: DX(2))
qed

section \<open>Lemmas about the installer and the delegator\<close>

lemma install_nodejs_enter:
  "enter_with h s = Some s0 \<Longrightarrow>
   install_nodejs h s =
     (case with_body h (get_node_download_url h) s0 of
        (r, s2) \<Rightarrow>
          (case r of
             Some e \<Rightarrow> (Inl e, s2\<lparr>fs := rmtree (fs s2) (mkdtemp h)\<rparr>)
           | None \<Rightarrow> verify_installation h (s2\<lparr>fs := rmtree (fs s2) (mkdtemp h)\<rparr>)))"
  by (auto simp: enter_with_def install_nodejs_def Let_def split: option.splits prod.splits)

lemma install_nodejs_not_entered:
  "enter_with h s = None \<Longrightarrow> (\<exists>e s'. install_nodejs h s = (Inl e, s') \<and> (e = MkdirError \<or> e = TempDirError))"
  by (auto simp: enter_with_def install_nodejs_def Let_def split: option.splits prod.splits)

lemma spawned_with_body: "spawned (snd (with_body h url s)) = spawned s"
  by (auto simp: with_body_def download_def extract_archive_def Let_def
      split: option.splits prod.splits fsnode.splits)

lemma spawned_verify: "spawned (snd (verify_installation h s)) = spawned s"
  by (simp add: verify_installation_def Let_def)

lemma spawned_install: "spawned (snd (install_nodejs h s)) = spawned s"
proof (cases "enter_with h s")
  case None
  then show ?thesis
    by (auto simp: enter_with_def install_nodejs_def Let_def split: option.splits)
next
  case (Some s0)
  then have s0: "spawned s0 = spawned s"
    by (auto simp: enter_with_def split: option.splits)
  obtain r s2 where wb: "with_body h (get_node_download_url h) s0 = (r, s2)"
    by (cases "with_body h (get_node_download_url h) s0")
  with spawned_with_body[of h "get_node_download_url h" s0] s0 have "spawned s2 = spawned s" by simp
  then show ?thesis using Some wb
    by (cases r) (simp_all add: install_nodejs_enter spawned_verify)
qed

lemma spawned_ensure: "ensure_nodejs h s = (r, s1) \<Longrightarrow> spawned s1 = spawned s"
  using spawned_install[of h "s\<lparr>stdout := stdout s @ [NotFoundInstalling]\<rparr>"]
  by (auto simp: ensure_nodejs_def split: option.splits)



section \<open>Lemmas about the temporary directory and the install directory\<close>

lemma fs_verify: "fs (snd (verify_installation h s)) = fs s"
  by (simp add: verify_installation_def Let_def)

lemma fs_install_entered:
  "enter_with h s = Some s0 \<Longrightarrow>
   fs (snd (install_nodejs h s))
     = rmtree (fs (snd (with_body h (get_node_download_url h) s0))) (mkdtemp h)"
  by (auto simp: install_nodejs_enter fs_verify split: prod.splits option.splits)

lemma archive_path_name: "archive_path h url = mkdtemp h @ [archive_name url]"
  by (simp add: archive_path_def archive_name_def)

lemma write_members_above:
  "lookup root T = Some tn \<Longrightarrow>
   lookup (write_members root T ms) T = Some (write_members tn [] ms)"
proof (induction ms arbitrary: root tn)
  case Nil
  then show ?case by simp
next
  case (Cons m ms)
  obtain name v where m: "m = (name, v)" by (cases m)
  from Cons.prems have "lookup (put root (T @ [name]) v) T = Some (put tn [name] v)"
    by (simp add: lookup_put_above[of "[name]", simplified])
  from Cons.IH[OF this] show ?case by (simp add: m)
qed

lemma write_members_disjoint:
  "\<not> prefix T I \<Longrightarrow> \<not> prefix I T \<Longrightarrow> lookup (write_members root T ms) I = lookup root I"
proof (induction ms arbitrary: root)
  case Nil
  then show ?case by simp
next
  case (Cons m ms)
  obtain name v where m: "m = (name, v)" by (cases m)
  from disjoint_extend[OF Cons.prems, of "[name]"]
  have "lookup (put root (T @ [name]) v) I = lookup root I"
    by (simp add: lookup_put_disjoint)
  with Cons.IH[OF Cons.prems] show ?case by (simp add: m)
qed

lemma is_dir_below: "lookup root T = Some tn \<Longrightarrow> is_dir root (T @ r) = is_dir tn r"
  by (simp add: is_dir_def lookup_append)

lemma iterdir_below: "lookup root T = Some tn \<Longrightarrow> iterdir root (T @ r) = iterdir tn r"
  by (simp add: iterdir_def lookup_append)

lemma find_extracted_below:
  "lookup root T = Some tn \<Longrightarrow>
   find_extracted root T = map_option (\<lambda>e. T @ e) (find_extracted tn [])"
  using iterdir_below[of root T tn "[]"] is_dir_below[of root T tn]
  by (simp add: find_extracted_def split: option.splits)

lemma install_entries_distinct:
  "distinct (map fst es) \<Longrightarrow>
   install_entries (Dir es) (map fst es) ic = filter (\<lambda>kv. fst kv \<notin> fst ` set es) ic @ es
   \<and> move_error E (Dir es) (map fst es) = None"
proof (induction es arbitrary: ic)
  case Nil
  then show ?case by simp
next
  case (Cons a es)
  obtain n v where a: "a = (n, v)" by (cases a)
  from Cons.prems have n: "n \<notin> fst ` set es" and d: "distinct (map fst es)"
    by (auto simp: a)
  have r: "remove (Dir (a # es)) [n] = Dir es"
    using n by (simp add: remove_dir_child a)
  have f: "filter (\<lambda>kv. fst kv \<notin> fst ` set es) (AList.delete n ic)
      = filter (\<lambda>kv. fst kv \<notin> fst ` set (a # es)) ic"
    by (auto simp: AList.delete_eq a intro: filter_cong)
  from Cons.IH[OF d, of "AList.delete n ic @ [(n, v)]"] n show ?case
    by (simp add: a r[unfolded a] f[unfolded a])
qed

lemma extract_archive_extractor:
  "extract_archive h url s =
     (case lookup (fs s) (archive_path h url) of
        Some (File content) \<Rightarrow>
          (case extractor h url content of
             None \<Rightarrow> (Some ExtractError, s)
           | Some members \<Rightarrow>
               (None, s\<lparr>fs := write_members (fs s) (mkdtemp h) members\<rparr>))
      | _ \<Rightarrow> (Some ExtractError, s))"
  by (auto simp: extract_archive_def extractor_def split: option.splits fsnode.splits)

lemma installed_idem: "installed h (installed h ic) = installed h ic"
  by (simp add: installed_def install_entries_idem split: option.splits)

lemma with_body_install:
  assumes d: "\<not> prefix (mkdtemp h) (install_dir h)" "\<not> prefix (install_dir h) (mkdtemp h)"
    and T: "lookup (fs s0) (mkdtemp h) = Some (Dir [])"
    and I: "lookup (fs s0) (install_dir h) = Some (Dir ic)"
  shows "lookup (fs (snd (with_body h (get_node_download_url h) s0))) (install_dir h)
           = Some (Dir (installed h ic))"
proof -
  let ?url = "get_node_download_url h"
  let ?T = "mkdtemp h"
  let ?I = "install_dir h"
  let ?a = "archive_name ?url"
  show ?thesis
  proof (cases "urlretrieve h ?url")
    case None
    then show ?thesis using I
      by (simp add: with_body_def download_def installed_def unpacked_tmp_def)
  next
    case (Some c)
    define s1 where "s1 = snd (download h ?url s0)"
    have dl: "download h ?url s0 = (None, s1)"
      by (simp add: s1_def download_def Some)
    have fs1: "fs s1 = put (fs s0) (?T @ [?a]) (File c)"
      by (simp add: s1_def download_def Some archive_path_name)
    have T1: "lookup (fs s1) ?T = Some (Dir [(?a, File c)])"
      using T by (simp add: fs1 lookup_put_above[of "[?a]", simplified] put_dir_child)
    have I1: "lookup (fs s1) ?I = Some (Dir ic)"
      using I disjoint_extend[OF d, of "[?a]"] by (simp add: fs1 lookup_put_disjoint)
    have rd: "lookup (fs s1) (archive_path h ?url) = Some (File c)"
      using T1 by (simp add: archive_path_name lookup_append)
    show ?thesis
    proof (cases "extractor h ?url c")
      case None
      then have "extract_archive h ?url s1 = (Some ExtractError, s1)"
        using rd by (simp add: extract_archive_extractor)
      then show ?thesis using dl I1 None Some
        by (simp add: with_body_def installed_def unpacked_tmp_def)
    next
      case ms: (Some members)
      define s2 where "s2 = s1\<lparr>fs := write_members (fs s1) ?T members\<rparr>"
      let ?t = "write_members (Dir [(?a, File c)]) [] members"
      have ex: "extract_archive h ?url s1 = (None, s2)"
        using rd ms by (simp add: extract_archive_extractor s2_def)
      have T2: "lookup (fs s2) ?T = Some ?t"
        using write_members_above[OF T1] by (simp add: s2_def)
      have I2: "lookup (fs s2) ?I = Some (Dir ic)"
        using I1 by (simp add: s2_def write_members_disjoint[OF d])
      have up: "unpacked_tmp h = Some ?t"
        by (simp add: unpacked_tmp_def Some ms)
      show ?thesis
      proof (cases "find_extracted ?t []")
        case None
        then have "find_extracted (fs s2) ?T = None"
          by (simp add: find_extracted_below[OF T2])
        then show ?thesis using dl ex I2 None up
          by (simp add: with_body_def installed_def)
      next
        case e: (Some e)
        then have fe: "find_extracted (fs s2) ?T = Some (?T @ e)"
          by (simp add: find_extracted_below[OF T2])
        have it: "iterdir (fs s2) (?T @ e) = iterdir ?t e"
          by (rule iterdir_below[OF T2])
        have wb: "with_body h ?url s0 =
            (fst (move_items (?T @ e) ?I (iterdir ?t e) (fs s2)),
             s2\<lparr>fs := snd (move_items (?T @ e) ?I (iterdir ?t e) (fs s2))\<rparr>)"
          using dl ex fe by (simp add: with_body_def move_to_install_def it split: prod.splits)
        have dE: "\<not> prefix (?T @ e) ?I" "\<not> prefix ?I (?T @ e)"
          using disjoint_extend[OF d, of e] by auto
        show ?thesis
        proof (cases "lookup ?t e")
          case None
          then have "iterdir ?t e = []" by (simp add: iterdir_def)
          then show ?thesis using wb I2 None e up by (simp add: installed_def)
        next
          case en: (Some en)
          then have "lookup (fs s2) (?T @ e) = Some en"
            using T2 by (simp add: lookup_append)
          from move_items_sim[OF dE this I2, of "iterdir ?t e"] show ?thesis
            using wb en e up by (simp add: installed_def)
        qed
      qed
    qed
  qed
qed

lemma enter_with_SomeD:
  "enter_with h s = Some s0 \<Longrightarrow>
   \<exists>root1. mkdir_parents (fs s) (install_dir h) = Some root1
     \<and> mkdtemp h \<noteq> [] \<and> is_dir root1 (butlast (mkdtemp h))
     \<and> fs s0 = put root1 (mkdtemp h) (Dir [])"
  by (auto simp: enter_with_def make_tmpdir_def parent_def split: option.splits if_splits)

lemma enter_with_tmp:
  "enter_with h s = Some s0 \<Longrightarrow> lookup (fs s0) (mkdtemp h) = Some (Dir [])"
  by (auto dest!: enter_with_SomeD simp: lookup_put_same)

lemma enter_with_install_dir:
  assumes "enter_with h s = Some s0"
    and d: "\<not> prefix (mkdtemp h) (install_dir h)" "\<not> prefix (install_dir h) (mkdtemp h)"
  shows "\<exists>ic. lookup (fs s0) (install_dir h) = Some (Dir ic)"
    and "lookup (fs s) (install_dir h) = Some (Dir ic') \<Longrightarrow>
         lookup (fs s0) (install_dir h) = Some (Dir ic')"
proof -
  from enter_with_SomeD[OF assms(1)] obtain root1 where
    m: "mkdir_parents (fs s) (install_dir h) = Some root1"
    and f: "fs s0 = put root1 (mkdtemp h) (Dir [])"
    by blast
  have l: "lookup (fs s0) (install_dir h) = lookup root1 (install_dir h)"
    by (simp add: f lookup_put_disjoint d)
  from mkdir_parents_is_dir[OF m] l show "\<exists>ic. lookup (fs s0) (install_dir h) = Some (Dir ic)"
    by simp
  assume i: "lookup (fs s) (install_dir h) = Some (Dir ic')"
  from mkdir_parents_id[OF i] m have "root1 = fs s" by simp
  with l i show "lookup (fs s0) (install_dir h) = Some (Dir ic')" by simp
qed

lemma install_nodejs_installed:
  assumes e: "enter_with h s = Some s0"
    and d: "\<not> prefix (mkdtemp h) (install_dir h)" "\<not> prefix (install_dir h) (mkdtemp h)"
    and i: "lookup (fs s0) (install_dir h) = Some (Dir ic)"
  shows "lookup (fs (snd (install_nodejs h s))) (install_dir h) = Some (Dir (installed h ic))"
  using with_body_install[OF d enter_with_tmp[OF e] i]
  by (simp add: fs_install_entered[OF e] rmtree_def lookup_remove_disjoint d)

lemma install_nodejs_not_entered_fs:
  assumes "enter_with h s = None" and "lookup (fs s) (install_dir h) = Some (Dir ic)"
  shows "fs (snd (install_nodejs h s)) = fs s"
  using assms mkdir_parents_id[OF assms(2)]
  by (auto simp: enter_with_def install_nodejs_def Let_def split: option.splits)

lemma install_twice:
  assumes d: "\<not> prefix (mkdtemp h) (install_dir h)" "\<not> prefix (install_dir h) (mkdtemp h)"
  shows "lookup (fs (snd (install_nodejs h (snd (install_nodejs h s))))) (install_dir h)
       = lookup (fs (snd (install_nodejs h s))) (install_dir h)"
proof -
  let ?s1 = "snd (install_nodejs h s)"
  let ?I = "install_dir h"
  have again: "lookup (fs (snd (install_nodejs h ?s1))) ?I = lookup (fs ?s1) ?I"
    if l: "lookup (fs ?s1) ?I = Some (Dir (installed h ic))" for ic
  proof (cases "enter_with h ?s1")
    case None
    from install_nodejs_not_entered_fs[OF None l] show ?thesis by simp
  next
    case (Some s0')
    from enter_with_install_dir(2)[OF Some d l]
    have "lookup (fs s0') ?I = Some (Dir (installed h ic))" .
    from install_nodejs_installed[OF Some d this] l show ?thesis
      by (simp add: installed_idem)
  qed
  show ?thesis
  proof (cases "enter_with h s")
    case (Some s0)
    from enter_with_install_dir(1)[OF Some d] obtain ic where
      "lookup (fs s0) ?I = Some (Dir ic)" by blast
    from again[OF install_nodejs_installed[OF Some d this]] show ?thesis .
  next
    case None
    show ?thesis
    proof (cases "mkdir_parents (fs s) ?I")
      case n: None
      then have "install_nodejs h s = (Inl MkdirError, s)" by (simp add: install_nodejs_def)
      then show ?thesis by simp
    next
      case (Some root1)
      with None have mt: "make_tmpdir h root1 = None"
        by (simp add: enter_with_def split: option.splits)
      with Some have f1: "fs ?s1 = root1" by (simp add: install_nodejs_def Let_def)
      from mkdir_parents_is_dir[OF Some] obtain ic where
        l: "lookup (fs ?s1) ?I = Some (Dir ic)" by (auto simp: f1)
      from mkdir_parents_id[OF l] mt have "enter_with h ?s1 = None"
        by (simp add: enter_with_def f1)
      from install_nodejs_not_entered_fs[OF this l] show ?thesis by simp
    qed
  qed
qed

lemma move_to_install_any_platform:
  "move_to_install h E root = move_items E (install_dir h) (iterdir root E) root"
  by (simp add: move_to_install_def)

section \<open>The download URL\<close>

text \<open>C1, as amended. For every host the download URL is the template
  \<^verbatim>\<open>https://{vendor-host}/dist/v{version}/{distName}-v{version}-{os}-{arch}.{ext}\<close> with
  the vendor host \<^verbatim>\<open>nodejs.org\<close>, the pinned version and the distribution name \<^verbatim>\<open>node\<close>;
  the extension is \<^verbatim>\<open>zip\<close> for windows, \<^verbatim>\<open>tar.gz\<close> for darwin and \<^verbatim>\<open>tar.xz\<close> for linux; the
  operating system's name in the URL is \<^verbatim>\<open>win\<close> (not \<^verbatim>\<open>windows\<close>) for the windows token,
  \<^verbatim>\<open>darwin\<close> and \<^verbatim>\<open>linux\<close> for the other two.\<close>

theorem download_url_template:
  "get_node_download_url h =
     url_template ''nodejs.org'' NODE_VERSION ''node'' (dist_os_name (os_token_of h))
       (node_arch (lower (platform_machine h))) (archive_ext (os_token_of h))"
  by (simp add: get_node_download_url_def url_template_def os_token_of_def Let_def)

text \<open>The theorem at a Linux host.\<close>

theorem download_url_template_witness:
  "get_node_download_url linux_host =
     ''https://nodejs.org/dist/v20.11.0/node-v20.11.0-linux-x64.tar.xz''"
proof -
  have "url_template ''nodejs.org'' NODE_VERSION ''node'' (dist_os_name (os_token_of linux_host))
       (node_arch (lower (platform_machine linux_host))) (archive_ext (os_token_of linux_host))
     = ''https://nodejs.org/dist/v20.11.0/node-v20.11.0-linux-x64.tar.xz''"
    by code_simp
  with download_url_template[of linux_host] show ?thesis by simp
qed

text \<open>C1 as the specification states it, with the token's own name \<^verbatim>\<open>windows\<close> in the URL,
  fails on a Windows host: the module asks for \<^verbatim>\<open>node-v20.11.0-win-x64.zip\<close>.\<close>

theorem download_url_windows_counterexample:
  "get_node_download_url windows_host
     = ''https://nodejs.org/dist/v20.11.0/node-v20.11.0-win-x64.zip''
   \<and> spec_download_url windows_host
     = ''https://nodejs.org/dist/v20.11.0/node-v20.11.0-windows-x64.zip''
   \<and> get_node_download_url windows_host \<noteq> spec_download_url windows_host"
  by (simp add: get_node_download_url_def spec_download_url_def url_template_def os_token_of_def
      windows_host_def linux_host_def node_arch_def lower_def lower_char_def NODE_VERSION_def)

section \<open>The architecture token\<close>

text \<open>C3, as amended. The machine string is compared after lower-casing: a string whose
  lower-cased form is \<^verbatim>\<open>x86_64\<close> or \<^verbatim>\<open>amd64\<close> gives \<^verbatim>\<open>x64\<close>, \<^verbatim>\<open>arm64\<close> or \<^verbatim>\<open>aarch64\<close> gives
  \<^verbatim>\<open>arm64\<close>, \<^verbatim>\<open>i386\<close>, \<^verbatim>\<open>i686\<close> or \<^verbatim>\<open>x86\<close> gives \<^verbatim>\<open>x86\<close>, and every other string gives \<^verbatim>\<open>x64\<close>;
  the result is always one of the three tokens, never an error.\<close>

theorem node_arch_of_machine:
  "(lower m = ''x86_64'' \<or> lower m = ''amd64'' \<longrightarrow> node_arch (lower m) = ''x64'')
   \<and> (lower m = ''arm64'' \<or> lower m = ''aarch64'' \<longrightarrow> node_arch (lower m) = ''arm64'')
   \<and> (lower m = ''i386'' \<or> lower m = ''i686'' \<or> lower m = ''x86'' \<longrightarrow> node_arch (lower m) = ''x86'')
   \<and> (lower m \<notin> {''x86_64'', ''amd64'', ''arm64'', ''aarch64'', ''i386'', ''i686'', ''x86''}
        \<longrightarrow> node_arch (lower m) = ''x64'')
   \<and> node_arch (lower m) \<in> {''x64'', ''arm64'', ''x86''}"
  by (auto simp: node_arch_def)

text \<open>The theorem at the machine string of Windows on ARM.\<close>

theorem node_arch_of_machine_witness:
  "lower ''ARM64'' = ''arm64'' \<and> node_arch (lower ''ARM64'') = ''arm64''"
proof -
  have l: "lower ''ARM64'' = ''arm64''" by code_simp
  from node_arch_of_machine[of "''ARM64''"] l show ?thesis by simp
qed

text \<open>C3 as the specification states it sends every string other than the seven listed
  to \<^verbatim>\<open>x64\<close>. The string \<^verbatim>\<open>ARM64\<close> is none of the seven, and the module maps it to
  \<^verbatim>\<open>arm64\<close>.\<close>

theorem node_arch_uppercase_counterexample:
  "''ARM64'' \<notin> {''x86_64'', ''amd64'', ''arm64'', ''aarch64'', ''i386'', ''i686'', ''x86''}
   \<and> platform_machine arm_host = ''ARM64''
   \<and> node_arch (lower (platform_machine arm_host)) = ''arm64''
   \<and> node_arch (lower (platform_machine arm_host)) \<noteq> ''x64''
   \<and> get_node_download_url arm_host
       = ''https://nodejs.org/dist/v20.11.0/node-v20.11.0-win-arm64.zip''"
  by (simp add: get_node_download_url_def arm_host_def linux_host_def node_arch_def
      lower_def lower_char_def NODE_VERSION_def)

section \<open>Locating the launcher\<close>

text \<open>C2, as amended. Locating the launcher: (1) the search path is asked for the
  platform's launcher file name, and a hit is returned; (2) else the primary runtime is
  located (search path, then the candidate directories), and when it is found the
  launcher is looked for as its sibling, in the same directory, and returned when it
  exists; (3) else the result is notFound. The candidate directories are never searched
  for the launcher itself.\<close>

theorem find_npx_algorithm:
  "(shutil_which h root (npx_name h) = Some p \<longrightarrow> find_npx h root = Some p)
   \<and> (shutil_which h root (npx_name h) = None \<longrightarrow> find_node h root = None \<longrightarrow>
        find_npx h root = None)
   \<and> (shutil_which h root (npx_name h) = None \<longrightarrow> find_node h root = Some node_path \<longrightarrow>
        find_npx h root =
          (if path_exists root (parent node_path @ [npx_name h])
           then Some (parent node_path @ [npx_name h]) else None))"
  by (simp add: find_npx_def npx_name_def Let_def)

text \<open>The theorem at a host with \<^verbatim>\<open>node\<close> on the search path, in a directory without
  \<^verbatim>\<open>npx\<close>.\<close>

theorem find_npx_algorithm_witness:
  "shutil_which path_host linux_root (npx_name path_host) = None
   \<and> find_node path_host linux_root = Some [''/'', ''opt'', ''bin'', ''node'']
   \<and> \<not> path_exists linux_root [''/'', ''opt'', ''bin'', ''npx'']
   \<and> find_npx path_host linux_root = None"
proof -
  have a: "shutil_which path_host linux_root (npx_name path_host) = None" by code_simp
  have b: "find_node path_host linux_root = Some [''/'', ''opt'', ''bin'', ''node'']"
    by code_simp
  have c: "parent [''/'', ''opt'', ''bin'', ''node''] @ [npx_name path_host]
      = [''/'', ''opt'', ''bin'', ''npx'']"
    by code_simp
  have d: "\<not> path_exists linux_root [''/'', ''opt'', ''bin'', ''npx'']" by code_simp
  from find_npx_algorithm[of path_host linux_root _ "[''/'', ''opt'', ''bin'', ''node'']"] a b
  have "find_npx path_host linux_root =
      (if path_exists linux_root (parent [''/'', ''opt'', ''bin'', ''node''] @ [npx_name path_host])
       then Some (parent [''/'', ''opt'', ''bin'', ''node''] @ [npx_name path_host]) else None)"
    by blast
  with d have "find_npx path_host linux_root = None" unfolding c by simp
  with a b d show ?thesis by blast
qed

text \<open>C2 as the specification states it searches the candidate directories for the
  launcher before falling back to the sibling. With \<^verbatim>\<open>npx\<close> in \<^verbatim>\<open>/usr/local/bin\<close>, off the
  search path, the specification's locator finds it and the module's does not.\<close>

theorem find_npx_candidates_counterexample:
  "find_npx path_host linux_root = None
   \<and> spec_find_npx path_host linux_root = Some [''/'', ''usr'', ''local'', ''bin'', ''npx'']"
  by code_simp

section \<open>A runtime that is already there\<close>

text \<open>C5. When the locator finds the runtime, on the search path or in a candidate
  directory, \<open>ensure_nodejs\<close> returns that path and the state is the one it was given: no
  request is made and the filesystem is not written.\<close>

theorem ensure_nodejs_present:
  "find_node h (fs s) = Some node_path \<Longrightarrow>
     ensure_nodejs h s = (Inr node_path, s)
   \<and> requests (snd (ensure_nodejs h s)) = requests s
   \<and> fs (snd (ensure_nodejs h s)) = fs s"
  by (simp add: ensure_nodejs_def)

text \<open>The theorem at a host with \<^verbatim>\<open>node\<close> on the search path.\<close>

theorem ensure_nodejs_present_witness:
  "find_node path_host (fs linux_state) = Some [''/'', ''opt'', ''bin'', ''node'']
   \<and> ensure_nodejs path_host linux_state = (Inr [''/'', ''opt'', ''bin'', ''node''], linux_state)"
proof -
  have a: "find_node path_host (fs linux_state) = Some [''/'', ''opt'', ''bin'', ''node'']"
    by code_simp
  from ensure_nodejs_present[OF a] a show ?thesis by blast
qed

section \<open>The temporary directory\<close>

text \<open>C6. On every way out of the installation, by its return or by a failure of the
  download, of the extraction, of the move or of the final check, the temporary
  directory does not exist when \<open>install_nodejs\<close>, and so \<open>ensure_nodejs\<close>, is left. The
  temporary directory is a name that was free before, and not a directory that the
  install directory lies in.\<close>

theorem tmpdir_removed:
  assumes fresh: "\<not> path_exists (fs s) (mkdtemp h)"
    and np: "\<not> prefix (mkdtemp h) (install_dir h)"
  shows "\<not> path_exists (fs (snd (install_nodejs h s))) (mkdtemp h)
       \<and> \<not> path_exists (fs (snd (ensure_nodejs h s))) (mkdtemp h)"
proof -
  have ne: "mkdtemp h \<noteq> []" using fresh by (auto simp: path_exists_def)
  have inst: "\<not> path_exists (fs (snd (install_nodejs h s'))) (mkdtemp h)"
    if f: "fs s' = fs s" for s'
  proof (cases "enter_with h s'")
    case (Some s0)
    then show ?thesis
      by (simp add: fs_install_entered rmtree_def path_exists_def lookup_remove_same[OF ne])
  next
    case None
    show ?thesis
    proof (cases "mkdir_parents (fs s') (install_dir h)")
      case n: None
      then show ?thesis using fresh f by (simp add: install_nodejs_def)
    next
      case (Some root1)
      with None have "make_tmpdir h root1 = None"
        by (simp add: enter_with_def split: option.splits)
      moreover from mkdir_parents_lookup[OF Some np] have "lookup root1 (mkdtemp h) = lookup (fs s) (mkdtemp h)"
        by (simp add: f)
      ultimately show ?thesis using Some fresh
        by (simp add: install_nodejs_def Let_def path_exists_def)
    qed
  qed
  show ?thesis
    using inst[of s] inst[of "s\<lparr>stdout := stdout s @ [NotFoundInstalling]\<rparr>"] fresh
    by (auto simp: ensure_nodejs_def split: option.splits)
qed

text \<open>The theorem at a Linux host without Node.js, where the installation succeeds, and at
  the same host without a network, where the download fails.\<close>

theorem tmpdir_removed_witness:
  "\<not> path_exists (fs linux_state) (mkdtemp linux_host)
   \<and> \<not> prefix (mkdtemp linux_host) (install_dir linux_host)
   \<and> \<not> path_exists (fs (snd (ensure_nodejs linux_host linux_state))) [''/'', ''tmp'', ''tmpk3v9'']
   \<and> fst (ensure_nodejs offline_host linux_state) = Inl DownloadError
   \<and> \<not> path_exists (fs (snd (ensure_nodejs offline_host linux_state))) [''/'', ''tmp'', ''tmpk3v9'']"
proof -
  have a: "\<not> path_exists (fs linux_state) (mkdtemp linux_host)" by code_simp
  have b: "\<not> prefix (mkdtemp linux_host) (install_dir linux_host)" by code_simp
  have a': "\<not> path_exists (fs linux_state) (mkdtemp offline_host)" by code_simp
  have b': "\<not> prefix (mkdtemp offline_host) (install_dir offline_host)" by code_simp
  have t: "mkdtemp linux_host = [''/'', ''tmp'', ''tmpk3v9'']"
    "mkdtemp offline_host = [''/'', ''tmp'', ''tmpk3v9'']"
    by code_simp+
  have e: "fst (ensure_nodejs offline_host linux_state) = Inl DownloadError" by code_simp
  from tmpdir_removed[OF a b] tmpdir_removed[OF a' b'] a b e show ?thesis
    unfolding t by blast
qed

section \<open>Installing twice\<close>

text \<open>C4. Installation is idempotent: from every state, installing the same archive a
  second time leaves the install directory as the first installation left it. In the move
  step every entry of the extracted directory replaces whatever had its name in the
  install directory, file or directory, whole: afterwards the install directory holds
  the entries it had under other names, followed by the entries of the extracted
  directory, each once. The move step is the same on every platform. The temporary
  directory and the install directory do not lie in one another.\<close>

theorem reinstall_idempotent:
  assumes d: "\<not> prefix (mkdtemp h) (install_dir h)" "\<not> prefix (install_dir h) (mkdtemp h)"
  shows "lookup (fs (snd (install_nodejs h (snd (install_nodejs h s))))) (install_dir h)
           = lookup (fs (snd (install_nodejs h s))) (install_dir h)
       \<and> (\<forall>E root es ic.
            \<not> prefix E (install_dir h) \<longrightarrow> \<not> prefix (install_dir h) E \<longrightarrow>
            lookup root E = Some (Dir es) \<longrightarrow> distinct (map fst es) \<longrightarrow>
            lookup root (install_dir h) = Some (Dir ic) \<longrightarrow>
              fst (move_to_install h E root) = None
            \<and> lookup (snd (move_to_install h E root)) (install_dir h)
                = Some (Dir (filter (\<lambda>kv. fst kv \<notin> fst ` set es) ic @ es)))
       \<and> (\<forall>E root. move_to_install h E root
                     = move_items E (install_dir h) (iterdir root E) root)"
proof (intro conjI allI impI)
  show "lookup (fs (snd (install_nodejs h (snd (install_nodejs h s))))) (install_dir h)
           = lookup (fs (snd (install_nodejs h s))) (install_dir h)"
    by (rule install_twice[OF d])
next
  fix E root es ic
  assume a: "\<not> prefix E (install_dir h)" "\<not> prefix (install_dir h) E"
    "lookup root E = Some (Dir es)" "distinct (map fst es)"
    "lookup root (install_dir h) = Some (Dir ic)"
  have it: "iterdir root E = map fst es" using a(3) by (simp add: iterdir_def)
  from move_items_sim[OF a(1) a(2) a(3) a(5), of "map fst es"]
    install_entries_distinct[OF a(4), of ic E]
  show "fst (move_to_install h E root) = None"
    and "lookup (snd (move_to_install h E root)) (install_dir h)
                = Some (Dir (filter (\<lambda>kv. fst kv \<notin> fst ` set es) ic @ es))"
    by (simp_all add: move_to_install_any_platform it)
next
  fix E root
  show "move_to_install h E root = move_items E (install_dir h) (iterdir root E) root"
    by (rule move_to_install_any_platform)
qed

text \<open>The theorem at a Linux host whose install directory holds an older installation:
  the old \<^verbatim>\<open>bin\<close> is replaced whole, and the second installation changes nothing.\<close>

theorem reinstall_idempotent_witness:
  "\<not> prefix (mkdtemp linux_host) (install_dir linux_host)
   \<and> \<not> prefix (install_dir linux_host) (mkdtemp linux_host)
   \<and> lookup (fs (snd (install_nodejs linux_host (snd (install_nodejs linux_host stale_state)))))
         (install_dir linux_host)
       = Some (Dir [(''CHANGELOG.md'', File ''old''),
                    (''bin'', Dir [(''node'', File ''node 20.11.0''), (''npx'', File ''npx'')]),
                    (''lib'', Dir [(''node_modules'', Dir [])]),
                    (''LICENSE'', File ''license'')])"
proof -
  have a: "\<not> prefix (mkdtemp linux_host) (install_dir linux_host)" by code_simp
  have b: "\<not> prefix (install_dir linux_host) (mkdtemp linux_host)" by code_simp
  have c: "lookup (fs (snd (install_nodejs linux_host stale_state))) (install_dir linux_host)
       = Some (Dir [(''CHANGELOG.md'', File ''old''),
                    (''bin'', Dir [(''node'', File ''node 20.11.0''), (''npx'', File ''npx'')]),
                    (''lib'', Dir [(''node_modules'', Dir [])]),
                    (''LICENSE'', File ''license'')])"
    by code_simp
  from reinstall_idempotent[OF a b, of stale_state]
  have "lookup (fs (snd (install_nodejs linux_host (snd (install_nodejs linux_host stale_state)))))
         (install_dir linux_host)
       = lookup (fs (snd (install_nodejs linux_host stale_state))) (install_dir linux_host)"
    by (rule conjunct1)
  with a b c show ?thesis by simp
qed

section \<open>The check after the move\<close>

text \<open>C7. When the \<^verbatim>\<open>with\<close> block has been entered and left without an error (the move
  step is done), \<open>install_nodejs\<close> fails with \<open>InstallationFailed\<close> if and only if nothing
  exists at the executable's path in the install directory, \<^verbatim>\<open>node.exe\<close> on Windows and
  \<^verbatim>\<open>bin/node\<close> elsewhere, and returns that path if and only if something does.\<close>

theorem install_verification:
  assumes "enter_with h s = Some s0"
    and "with_body h (get_node_download_url h) s0 = (None, s2)"
  shows "(fst (install_nodejs h s) = Inl (InstallationFailed (node_exe_path h))
            \<longleftrightarrow> \<not> path_exists (fs (snd (install_nodejs h s))) (node_exe_path h))
       \<and> (path_exists (fs (snd (install_nodejs h s))) (node_exe_path h)
            \<longleftrightarrow> fst (install_nodejs h s) = Inr (node_exe_path h))
       \<and> fs (snd (install_nodejs h s)) = rmtree (fs s2) (mkdtemp h)
       \<and> node_exe_path h = (if is_windows h then install_dir h @ [''node.exe'']
                             else install_dir h @ [''bin'', ''node''])"
  using assms
  by (simp add: install_nodejs_enter verify_installation_def Let_def node_exe_path_def)

text \<open>The theorem at a Linux host without Node.js.\<close>

theorem install_verification_witness:
  "enter_with linux_host linux_state \<noteq> None
   \<and> fst (with_body linux_host (get_node_download_url linux_host)
            (the (enter_with linux_host linux_state))) = None
   \<and> path_exists (fs (snd (install_nodejs linux_host linux_state)))
        [''/'', ''home'', ''u'', ''.claude-ssh-mcp'', ''node'', ''bin'', ''node'']
   \<and> fst (install_nodejs linux_host linux_state)
        = Inr [''/'', ''home'', ''u'', ''.claude-ssh-mcp'', ''node'', ''bin'', ''node'']"
proof -
  have e1: "enter_with linux_host linux_state = Some (the (enter_with linux_host linux_state))"
    by code_simp
  have e2: "with_body linux_host (get_node_download_url linux_host)
      (the (enter_with linux_host linux_state))
   = (None, snd (with_body linux_host (get_node_download_url linux_host)
      (the (enter_with linux_host linux_state))))"
    by code_simp
  have n: "node_exe_path linux_host
      = [''/'', ''home'', ''u'', ''.claude-ssh-mcp'', ''node'', ''bin'', ''node'']"
    by code_simp
  have p: "path_exists (fs (snd (install_nodejs linux_host linux_state)))
      [''/'', ''home'', ''u'', ''.claude-ssh-mcp'', ''node'', ''bin'', ''node'']"
    by code_simp
  have a: "enter_with linux_host linux_state \<noteq> None"
    using e1 by (metis option.distinct(1))
  have b: "fst (with_body linux_host (get_node_download_url linux_host)
      (the (enter_with linux_host linux_state))) = None"
    using e2 by (metis fst_conv)
  from install_verification[OF e1 e2]
  have "path_exists (fs (snd (install_nodejs linux_host linux_state))) (node_exe_path linux_host)
      \<longleftrightarrow> fst (install_nodejs linux_host linux_state) = Inr (node_exe_path linux_host)"
    by blast
  with p have c: "fst (install_nodejs linux_host linux_state)
      = Inr [''/'', ''home'', ''u'', ''.claude-ssh-mcp'', ''node'', ''bin'', ''node'']"
    unfolding n by blast
  from a b p c show ?thesis by blast
qed

section \<open>The extracted directory\<close>



section \<open>The entry points\<close>



section \<open>The launcher that is not looked for\<close>

text \<open>C10. When the launcher is not found, \<open>run_npx\<close> ensures the runtime, takes the
  sibling of the runtime's executable under the launcher's name, and has it spawned:
  the path is handed to the spawn without a test that it exists, so no failure is
  raised before the spawn is attempted.\<close>

theorem run_npx_unchecked_sibling:
  assumes "find_npx h (fs s) = None"
    and "ensure_nodejs h s = (Inr node_path, s1)"
  shows "run_npx h args s = call h (parent node_path @ [npx_name h], args) s1
       \<and> spawned (snd (run_npx h args s))
           = spawned s @ [(parent node_path @ [npx_name h], args)]"
proof -
  have r: "run_npx h args s = call h (parent node_path @ [npx_name h], args) s1"
    using assms by (simp add: run_npx_def npx_name_def Let_def)
  have "spawned (snd (call h (parent node_path @ [npx_name h], args) s1))
      = spawned s1 @ [(parent node_path @ [npx_name h], args)]"
    by (auto simp: call_def Let_def split: prod.splits option.splits)
  with r spawned_ensure[OF assms(2)] show ?thesis by simp
qed

text \<open>The theorem at a host with \<^verbatim>\<open>node\<close> on the search path and no \<^verbatim>\<open>npx\<close> beside it: the
  sibling does not exist, and it is spawned.\<close>

theorem run_npx_unchecked_sibling_witness:
  "find_npx path_host (fs linux_state) = None
   \<and> ensure_nodejs path_host linux_state = (Inr [''/'', ''opt'', ''bin'', ''node''], linux_state)
   \<and> \<not> path_exists (fs linux_state) [''/'', ''opt'', ''bin'', ''npx'']
   \<and> spawned (snd (run_npx path_host [''-y'', ''claude-ssh-mcp''] linux_state))
        = [([''/'', ''opt'', ''bin'', ''npx''], [''-y'', ''claude-ssh-mcp''])]"
proof -
  have a: "find_npx path_host (fs linux_state) = None" by code_simp
  have b: "ensure_nodejs path_host linux_state
      = (Inr [''/'', ''opt'', ''bin'', ''node''], linux_state)"
    by code_simp
  have c: "\<not> path_exists (fs linux_state) [''/'', ''opt'', ''bin'', ''npx'']" by code_simp
  have d: "parent [''/'', ''opt'', ''bin'', ''node''] @ [npx_name path_host]
      = [''/'', ''opt'', ''bin'', ''npx'']"
    by code_simp
  have e: "spawned linux_state = []" by code_simp
  have f: "spawned (snd (run_npx path_host [''-y'', ''claude-ssh-mcp''] linux_state))
        = [([''/'', ''opt'', ''bin'', ''npx''], [''-y'', ''claude-ssh-mcp''])]"
    using run_npx_unchecked_sibling[OF a b, of "[''-y'', ''claude-ssh-mcp'']"]
    unfolding d e append_Nil
    by (rule conjunct2)
  from a b c f show ?thesis by blast
qed

end
